theory Spec2Isabelle
  imports Complex_Main
begin

section \<open>Tensors\<close>

text \<open>
  A tensor is its shape together with its elements in row-major order. Floating-point
  elements are modelled as real numbers: rounding, overflow and nan or infinite inputs
  are outside the model. A tensor handed to the module always has as many elements as
  its shape says; \<open>wf_tensor\<close> states that.
\<close>

record 'a tensor =
  shape :: "nat list"
  elems :: "'a list"

definition wf_tensor :: "'a tensor \<Rightarrow> bool" where
  "wf_tensor t = (length (elems t) = prod_list (shape t))"

text \<open>The \<open>i\<close>-th block of \<open>r\<close> consecutive elements of a row-major buffer.\<close>

definition row_at :: "nat \<Rightarrow> 'a list \<Rightarrow> nat \<Rightarrow> 'a list" where
  "row_at r xs i = take r (drop (i * r) xs)"

text \<open>
  The errors the module can raise. Those of the cross-entropy kernel: an input of rank
  below two, a target whose shape does not fit the input's, a weight vector that does not
  have one entry per class, a target that is neither a class index nor the ignored index.
  The others: a dimension index out of range or in the wrong order (\<open>flatten\<close>), a
  boolean index whose length is not the indexed dimension's, an arg-max over a dimension
  of size zero, and a buffer that is neither a tensor nor \<open>None\<close> (construction).
\<close>

datatype kernel_error =
  TooFewDims | TargetShape | WeightSize | TargetOutOfBounds

datatype error =
  DimOutOfRange | FlattenOrder | MaskShapeMismatch | EmptyReductionDim
  | BufferTypeError | KernelError kernel_error

subsection \<open>The tensor library's primitives used by the module\<close>

text \<open>
  \<open>wrap_dim\<close> is the library's normalisation of a possibly negative dimension index
  for a tensor of the given rank; a rank-0 tensor is treated as rank 1.
\<close>

definition wrap_dim :: "int \<Rightarrow> nat \<Rightarrow> error + nat" where
  "wrap_dim d rank =
     (let r = int (max rank 1)
      in if - r \<le> d \<and> d < r then Inr (nat (if d < 0 then d + r else d))
         else Inl DimOutOfRange)"

text \<open>\<open>torch.flatten(t, start_dim, end_dim)\<close>: the dimensions from \<open>start_dim\<close> to
  \<open>end_dim\<close> are merged into one; the buffer is unchanged.\<close>

definition flatten :: "'a tensor \<Rightarrow> int \<Rightarrow> int \<Rightarrow> error + 'a tensor" where
  "flatten t start_dim end_dim =
     (case wrap_dim start_dim (length (shape t)) of
        Inl e \<Rightarrow> Inl e
      | Inr s \<Rightarrow>
         (case wrap_dim end_dim (length (shape t)) of
            Inl e \<Rightarrow> Inl e
          | Inr e \<Rightarrow>
              if e < s then Inl FlattenOrder
              else if shape t = [] then Inr \<lparr>shape = [1], elems = elems t\<rparr>
              else Inr \<lparr>shape = take s (shape t)
                             @ [prod_list (take (e - s + 1) (drop s (shape t)))]
                             @ drop (e + 1) (shape t),
                         elems = elems t\<rparr>))"

text \<open>
  A loss mask is boolean-typed, or numeric (floating point or integer).
  \<open>coerce_mask\<close> is the mask after
  \<^verbatim>\<open>if loss_mask.dtype is not torch.bool: loss_mask = loss_mask > 0.5\<close>:
  a boolean-typed mask is kept, any other is compared with one half, elementwise.
\<close>

datatype mask = MBool "bool tensor" | MFloat "real tensor" | MInt "int tensor"

fun coerce_mask :: "mask \<Rightarrow> bool tensor" where
  "coerce_mask (MBool b) = b"
| "coerce_mask (MFloat f) = \<lparr>shape = shape f, elems = map (\<lambda>v. v > 0.5) (elems f)\<rparr>"
| "coerce_mask (MInt i) = \<lparr>shape = shape i, elems = map (\<lambda>v. real_of_int v > 0.5) (elems i)\<rparr>"

text \<open>
  \<open>x[m]\<close> for a one-dimensional boolean tensor \<open>m\<close>: the blocks of \<open>x\<close> along its first
  dimension at which \<open>m\<close> is true, in their order. The library raises an index error
  unless the mask is as long as the first dimension of \<open>x\<close>.
\<close>

definition index_mask :: "'a tensor \<Rightarrow> bool tensor \<Rightarrow> error + 'a tensor" where
  "index_mask x m =
     (case shape x of
        [] \<Rightarrow> Inl MaskShapeMismatch
      | n # rest \<Rightarrow>
          if shape m \<noteq> [n] then Inl MaskShapeMismatch
          else Inr \<lparr>shape = length (filter id (elems m)) # rest,
                    elems = concat (map fst (filter snd
                              (zip (map (row_at (prod_list rest) (elems x)) [0..<n]) (elems m))))\<rparr>)"

text \<open>\<open>len(t)\<close>: the size of the first dimension. The module applies it to a flattened,
  one-dimensional tensor only.\<close>

definition len :: "'a tensor \<Rightarrow> nat" where
  "len t = (case shape t of [] \<Rightarrow> 0 | n # rest \<Rightarrow> n)"

text \<open>The index of the first maximal element of a list.\<close>

fun argmax_list :: "real list \<Rightarrow> nat" where
  "argmax_list [] = 0"
| "argmax_list (x # xs) = (if list_all (\<lambda>y. y \<le> x) xs then 0 else Suc (argmax_list xs))"

text \<open>\<open>torch.argmax(x, dim=-1)\<close>: the last dimension is reduced to the index of its
  maximum; reducing a dimension of size zero is an error.\<close>

definition argmax_last :: "real tensor \<Rightarrow> error + int tensor" where
  "argmax_last x =
     (if shape x = [] then Inr \<lparr>shape = [], elems = [0]\<rparr>
      else if last (shape x) = 0 then Inl EmptyReductionDim
      else Inr \<lparr>shape = butlast (shape x),
                elems = map (\<lambda>i. int (argmax_list (row_at (last (shape x)) (elems x) i)))
                          [0..<prod_list (butlast (shape x))]\<rparr>)"

subsection \<open>The cross-entropy kernel\<close>

text \<open>
  \<open>torch.nn.CrossEntropyLoss(weight, reduction)\<close> applied to an input of shape
  \<open>[N, C, d1, ..., dK]\<close> and a target of class indices of shape \<open>[N, d1, ..., dK]\<close>: the
  class axis is dimension 1 of the input. A target equal to \<open>ignore_index\<close> contributes
  nothing; under the mean reduction the sum is divided by the total weight of the
  targets that are not ignored, and the result is not a finite number when that total is
  zero (an empty batch gives nan). The shapes and the weight's length are checked before
  the targets are read. The module flattens its logits before anything else and that
  fails below rank two, so the kernel never receives such an input from it.
\<close>

datatype reduction = ReduceMean | ReduceSum | ReduceNone

record criterion =
  weight :: "real list option"
  reduction :: reduction

datatype loss = Loss "real tensor" | NonFinite

definition ignore_index :: int where
  "ignore_index = - 100"

text \<open>The scores of all classes at position \<open>p\<close> of the target, for an input with \<open>c\<close>
  classes and \<open>d\<close> positions per batch entry.\<close>

definition scores_at :: "nat \<Rightarrow> nat \<Rightarrow> real list \<Rightarrow> nat \<Rightarrow> real list" where
  "scores_at c d xs p = map (\<lambda>k. xs ! (((p div d) * c + k) * d + p mod d)) [0..<c]"

text \<open>Negative log-softmax of the scores \<open>v\<close> at class \<open>t\<close>.\<close>

definition nll :: "real list \<Rightarrow> nat \<Rightarrow> real" where
  "nll v t = ln (sum_list (map exp v)) - v ! t"

definition class_weight :: "real list option \<Rightarrow> int \<Rightarrow> real" where
  "class_weight w t =
     (if t = ignore_index then 0
      else case w of None \<Rightarrow> 1 | Some ws \<Rightarrow> ws ! nat t)"

definition position_loss :: "real list option \<Rightarrow> real list \<Rightarrow> int \<Rightarrow> real" where
  "position_loss w v t =
     (if t = ignore_index then 0 else class_weight w t * nll v (nat t))"

definition target_ok :: "nat \<Rightarrow> int \<Rightarrow> bool" where
  "target_ok c t = (t = ignore_index \<or> (0 \<le> t \<and> t < int c))"

definition weight_ok :: "real list option \<Rightarrow> nat \<Rightarrow> bool" where
  "weight_ok w c = (case w of None \<Rightarrow> True | Some ws \<Rightarrow> length ws = c)"

definition cross_entropy :: "criterion \<Rightarrow> real tensor \<Rightarrow> int tensor \<Rightarrow> error + loss" where
  "cross_entropy cr x t =
     (case shape x of
        [] \<Rightarrow> Inl (KernelError TooFewDims)
      | [n] \<Rightarrow> Inl (KernelError TooFewDims)
      | n # c # ds \<Rightarrow>
          if shape t \<noteq> n # ds then Inl (KernelError TargetShape)
          else if \<not> weight_ok (weight cr) c then Inl (KernelError WeightSize)
          else if \<not> list_all (target_ok c) (elems t) then Inl (KernelError TargetOutOfBounds)
          else
            let d = prod_list ds;
                ps = [0..<n * d];
                ls = map (\<lambda>p. position_loss (weight cr) (scores_at c d (elems x) p) (elems t ! p)) ps;
                ws = map (\<lambda>p. class_weight (weight cr) (elems t ! p)) ps
            in (case reduction cr of
                  ReduceNone \<Rightarrow> Inr (Loss \<lparr>shape = n # ds, elems = ls\<rparr>)
                | ReduceSum \<Rightarrow> Inr (Loss \<lparr>shape = [], elems = [sum_list ls]\<rparr>)
                | ReduceMean \<Rightarrow>
                    if sum_list ws = 0 then Inr NonFinite
                    else Inr (Loss \<lparr>shape = [], elems = [sum_list ls / sum_list ws]\<rparr>)))"

section \<open>The module\<close>

text \<open>
  The module's state: the criterion built at construction and the stored rank of the
  logits.
\<close>

record module =
  criterion :: criterion
  logits_dim :: int

text \<open>
  \<open>__init__(logits_ndim, weight, reduction)\<close>. A weight that is given and truthy (a
  non-empty list) is converted to a tensor; \<open>None\<close> and the empty list are passed to the
  criterion's constructor as they are, and that constructor accepts a tensor or \<open>None\<close>
  only, so the empty list is refused with a type error.
\<close>

definition init :: "int \<Rightarrow> real list option \<Rightarrow> reduction \<Rightarrow> error + module" where
  "init logits_ndim w red =
     (case w of
        None \<Rightarrow> Inr \<lparr>criterion = \<lparr>weight = None, reduction = red\<rparr>, logits_dim = logits_ndim\<rparr>
      | Some ws \<Rightarrow>
          if ws \<noteq> [] then
            Inr \<lparr>criterion = \<lparr>weight = Some ws, reduction = red\<rparr>, logits_dim = logits_ndim\<rparr>
          else Inl BufferTypeError)"

text \<open>
  The body of \<open>forward\<close> up to its call of the criterion: the two tensors the criterion is
  called with, or the error raised before the call. Both return statements of \<open>forward\<close>
  return the criterion's value on such a pair.
\<close>

definition criterion_inputs ::
  "real tensor \<Rightarrow> int tensor \<Rightarrow> mask option \<Rightarrow> error + (real tensor \<times> int tensor)" where
  "criterion_inputs logits labels loss_mask =
     (case flatten logits 0 (- 2) of
        Inl e \<Rightarrow> Inl e
      | Inr logits_flatten \<Rightarrow>
     (case flatten labels 0 (- 1) of
        Inl e \<Rightarrow> Inl e
      | Inr labels_flatten \<Rightarrow>
     (case (case loss_mask of
              None \<Rightarrow> Inr (logits_flatten, labels_flatten)
            | Some m \<Rightarrow>
                (case flatten (coerce_mask m) 0 (- 1) of
                   Inl e \<Rightarrow> Inl e
                 | Inr loss_mask_flatten \<Rightarrow>
                (case index_mask logits_flatten loss_mask_flatten of
                   Inl e \<Rightarrow> Inl e
                 | Inr logits_sel \<Rightarrow>
                (case index_mask labels_flatten loss_mask_flatten of
                   Inl e \<Rightarrow> Inl e
                 | Inr labels_sel \<Rightarrow> Inr (logits_sel, labels_sel))))) of
        Inl e \<Rightarrow> Inl e
      | Inr (logits_flatten, labels_flatten) \<Rightarrow>
          if len labels_flatten = 0 then
            (case argmax_last logits of
               Inl e \<Rightarrow> Inl e
             | Inr predictions \<Rightarrow> Inr (logits, predictions))
          else Inr (logits_flatten, labels_flatten))))"

text \<open>
  \<open>forward(logits, labels, loss_mask)\<close>, as a function of the module's state that
  returns the loss (or the error raised) together with the state after the call. The
  model is the method's body; the check of the declared port types by the \<open>typecheck\<close>
  decorator, which runs before the body, is defined elsewhere and is not part of it.
\<close>

definition forward ::
  "module \<Rightarrow> real tensor \<Rightarrow> int tensor \<Rightarrow> mask option \<Rightarrow> (error + loss) \<times> module" where
  "forward self logits labels loss_mask =
     ((case criterion_inputs logits labels loss_mask of
         Inl e \<Rightarrow> Inl e
       | Inr (x, t) \<Rightarrow> cross_entropy (criterion self) x t),
      self)"

section \<open>Reference formulations\<close>

text \<open>
  The rows of a two-dimensional tensor and the entries of a one-dimensional tensor at
  the indices where a list of booleans is true, in increasing order of the index. The
  claims about masking compare \<open>forward\<close> with a mask against \<open>forward\<close> without one on
  these tensors.
\<close>

definition select_rows :: "'a tensor \<Rightarrow> bool list \<Rightarrow> 'a tensor" where
  "select_rows x ms =
     \<lparr>shape = [length (filter id ms), last (shape x)],
      elems = concat (map (row_at (last (shape x)) (elems x))
                (filter (\<lambda>i. ms ! i) [0..<length ms]))\<rparr>"

definition select_entries :: "'a tensor \<Rightarrow> bool list \<Rightarrow> 'a tensor" where
  "select_entries x ms =
     \<lparr>shape = [length (filter id ms)],
      elems = map (\<lambda>i. elems x ! i) (filter (\<lambda>i. ms ! i) [0..<length ms])\<rparr>"

section \<open>Auxiliary facts\<close>

subsection \<open>Flattening and masking\<close>

lemma flatten_rows:
  "flatten t 0 (- 2) =
     (if length (shape t) < 2 then Inl DimOutOfRange
      else Inr \<lparr>shape = [prod_list (butlast (shape t)), last (shape t)], elems = elems t\<rparr>)"
proof (cases "length (shape t) < 2")
  case True
  then show ?thesis by (auto simp: flatten_def wrap_dim_def Let_def max_def)
next
  case False
  then have r: "2 \<le> length (shape t)" by simp
  then have ne: "shape t \<noteq> []" by (cases "shape t") simp_all
  have w0: "wrap_dim 0 (length (shape t)) = Inr 0"
    using r ne by (simp add: wrap_dim_def Let_def)
  have w2: "wrap_dim (- 2) (length (shape t)) = Inr (length (shape t) - 2)"
    using r ne by (auto simp: wrap_dim_def Let_def max_def nat_diff_distrib')
  have a: "Suc (length (shape t) - 2) = length (shape t) - 1" using r by simp
  have b: "drop (length (shape t) - Suc 0) (shape t) = [last (shape t)]"
    using ne by (cases "shape t" rule: rev_cases) simp_all
  show ?thesis using r ne
    by (simp add: flatten_def w0 w2 a b butlast_conv_take)
qed

lemma flatten_all:
  "flatten t 0 (- 1) = Inr \<lparr>shape = [prod_list (shape t)], elems = elems t\<rparr>"
  by (auto simp: flatten_def wrap_dim_def Let_def max_def nat_diff_distrib')

lemma zip_filter_upt:
  "length ms = n \<Longrightarrow>
   map fst (filter snd (zip (map f [0..<n]) ms)) = map f (filter (\<lambda>i. ms ! i) [0..<n])"
proof (induction ms arbitrary: n rule: rev_induct)
  case Nil
  then show ?case by simp
next
  case (snoc b bs)
  then have n: "n = Suc (length bs)" by simp
  have eq: "filter (\<lambda>i. (bs @ [b]) ! i) [0..<length bs] = filter (\<lambda>i. bs ! i) [0..<length bs]"
    by (intro filter_cong) (auto simp: nth_append)
  show ?case
    using snoc.IH[OF refl] by (simp add: n eq)
qed

lemma criterion_inputs_no_mask:
  assumes "2 \<le> length (shape logits)"
  shows "criterion_inputs logits labels None =
     (if prod_list (shape labels) = 0
      then (case argmax_last logits of Inl e \<Rightarrow> Inl e | Inr p \<Rightarrow> Inr (logits, p))
      else Inr (\<lparr>shape = [prod_list (butlast (shape logits)), last (shape logits)],
                  elems = elems logits\<rparr>,
                \<lparr>shape = [prod_list (shape labels)], elems = elems labels\<rparr>))"
  using assms by (simp add: criterion_inputs_def flatten_rows flatten_all len_def)

lemma criterion_inputs_mask:
  assumes "2 \<le> length (shape logits)"
    and "prod_list (shape (coerce_mask m)) = prod_list (butlast (shape logits))"
    and "prod_list (shape labels) = prod_list (shape (coerce_mask m))"
  shows "criterion_inputs logits labels (Some m) =
     (if filter id (elems (coerce_mask m)) = []
      then (case argmax_last logits of Inl e \<Rightarrow> Inl e | Inr p \<Rightarrow> Inr (logits, p))
      else Inr (\<lparr>shape = [length (filter id (elems (coerce_mask m))), last (shape logits)],
                  elems = concat (map fst (filter snd
                     (zip (map (row_at (last (shape logits)) (elems logits))
                             [0..<prod_list (butlast (shape logits))])
                          (elems (coerce_mask m)))))\<rparr>,
                \<lparr>shape = [length (filter id (elems (coerce_mask m)))],
                  elems = concat (map fst (filter snd
                     (zip (map (row_at 1 (elems labels)) [0..<prod_list (shape labels)])
                          (elems (coerce_mask m)))))\<rparr>))"
  using assms
  by (simp add: criterion_inputs_def flatten_rows flatten_all len_def index_mask_def)

lemma concat_rows_one:
  assumes "\<forall>i \<in> set is. i < length xs"
  shows "concat (map (row_at 1 xs) is) = map (\<lambda>i. xs ! i) is"
  using assms by (induction "is") (simp_all add: row_at_def take_Suc_conv_app_nth)

lemma filter_id_nonempty: "True \<in> set ms \<Longrightarrow> filter id ms \<noteq> []"
  by (auto simp: filter_empty_conv)

lemma filter_zip_all_false:
  "list_all (\<lambda>b. \<not> b) ms \<Longrightarrow> filter snd (zip xs ms) = []"
  by (auto simp: filter_empty_conv list_all_iff dest: set_zip_rightD)

lemma filter_id_all_false:
  "list_all (\<lambda>b. \<not> b) ms \<Longrightarrow> filter id ms = []"
  by (auto simp: filter_empty_conv list_all_iff)

lemma criterion_inputs_coerce:
  "coerce_mask m = coerce_mask m' \<Longrightarrow>
   criterion_inputs logits labels (Some m) = criterion_inputs logits labels (Some m')"
  by (simp add: criterion_inputs_def cong: sum.case_cong)

lemma set_selected_entries:
  "set (concat (map fst (filter snd (zip (map (row_at r xs) is) ms)))) \<subseteq> set xs"
proof -
  have "\<And>i. set (row_at r xs i) \<subseteq> set xs"
    unfolding row_at_def by (meson set_take_subset set_drop_subset subset_trans)
  then show ?thesis
    by (fastforce dest!: set_zip_leftD)
qed

subsection \<open>The fallback branch\<close>

lemma argmax_list_less: "v \<noteq> [] \<Longrightarrow> argmax_list v < length v"
proof (induction v)
  case Nil
  then show ?case by simp
next
  case (Cons x xs)
  then show ?case by (cases xs) auto
qed

lemma argmax_row_less: "0 < c \<Longrightarrow> argmax_list (row_at c xs i) < c"
proof (cases "row_at c xs i = []")
  case True
  assume "0 < c"
  with True show ?thesis by simp
next
  case False
  then have "argmax_list (row_at c xs i) < length (row_at c xs i)"
    by (rule argmax_list_less)
  also have "\<dots> \<le> c" by (simp add: row_at_def)
  finally show ?thesis .
qed

lemma argmax_last_value:
  assumes "shape x \<noteq> []" and "0 < last (shape x)"
  shows "argmax_last x =
     Inr \<lparr>shape = butlast (shape x),
          elems = map (\<lambda>i. int (argmax_list (row_at (last (shape x)) (elems x) i)))
                    [0..<prod_list (butlast (shape x))]\<rparr>"
  using assms by (simp add: argmax_last_def)

lemma argmax_targets_ok:
  "0 < c \<Longrightarrow> list_all (target_ok c) (map (\<lambda>i. int (argmax_list (row_at c xs i))) is)"
  by (simp add: list_all_iff target_ok_def argmax_row_less)

lemma fallback_inputs:
  assumes rank: "2 \<le> length (shape logits)"
    and lab: "shape labels = butlast (shape logits)"
    and cls: "0 < last (shape logits)"
    and emp: "case loss_mask of
                None \<Rightarrow> prod_list (shape labels) = 0
              | Some m \<Rightarrow> shape (coerce_mask m) = shape labels
                          \<and> list_all (\<lambda>b. \<not> b) (elems (coerce_mask m))"
  shows "criterion_inputs logits labels loss_mask =
     Inr (logits,
          \<lparr>shape = butlast (shape logits),
           elems = map (\<lambda>i. int (argmax_list (row_at (last (shape logits)) (elems logits) i)))
                     [0..<prod_list (butlast (shape logits))]\<rparr>)"
proof -
  from rank have ne: "shape logits \<noteq> []" by (cases "shape logits") simp_all
  note am = argmax_last_value[OF ne cls]
  show ?thesis
  proof (cases loss_mask)
    case None
    with emp show ?thesis by (simp add: criterion_inputs_no_mask[OF rank] am)
  next
    case (Some m)
    with emp have s: "shape (coerce_mask m) = shape labels"
      and f: "filter id (elems (coerce_mask m)) = []"
      by (simp_all add: filter_id_all_false)
    show ?thesis unfolding Some
      by (simp add: criterion_inputs_mask[OF rank] s lab f am)
  qed
qed

lemma cross_entropy_accepts:
  assumes "shape x = [n, c]" and "shape t = [n]" and "weight_ok (weight cr) c"
    and "list_all (target_ok c) (elems t)"
  shows "\<exists>l. cross_entropy cr x t = Inr l"
  using assms by (cases "reduction cr") (simp_all add: cross_entropy_def Let_def)

lemma last_pos_of_prod_pos:
  "xs \<noteq> [] \<Longrightarrow> 0 < prod_list xs \<Longrightarrow> 0 < last xs" for xs :: "nat list"
proof -
  assume ne: "xs \<noteq> []" and p: "0 < prod_list xs"
  from ne have "last xs \<in> set xs" by simp
  moreover from p have "prod_list xs \<noteq> 0" by simp
  then have "0 \<notin> set xs" by (simp add: prod_list_zero_iff)
  ultimately show ?thesis by (metis gr0I)
qed

subsection \<open>The criterion on a single example, and on a weight of the wrong length\<close>

lemma cross_entropy_one_example:
  assumes "t = 0 \<or> t = 1" and "weight_ok w 2"
  shows "cross_entropy \<lparr>weight = w, reduction = red\<rparr>
           \<lparr>shape = [Suc 0, 2], elems = [a, b]\<rparr> \<lparr>shape = [Suc 0], elems = [t]\<rparr>
       = (let l = class_weight w t * (ln (exp a + exp b) - [a, b] ! nat t)
          in case red of
               ReduceNone \<Rightarrow> Inr (Loss \<lparr>shape = [1], elems = [l]\<rparr>)
             | ReduceSum \<Rightarrow> Inr (Loss \<lparr>shape = [], elems = [l]\<rparr>)
             | ReduceMean \<Rightarrow>
                 if class_weight w t = 0 then Inr NonFinite
                 else Inr (Loss \<lparr>shape = [], elems = [l / class_weight w t]\<rparr>))"
  using assms
  by (cases red)
     (auto simp: cross_entropy_def target_ok_def position_loss_def ignore_index_def
        scores_at_def nll_def numeral_2_eq_2 Let_def)

lemma forward_one_example:
  "fst (forward \<lparr>criterion = cr, logits_dim = n\<rparr>
          \<lparr>shape = [Suc 0, 2], elems = [a, b]\<rparr> \<lparr>shape = [Suc 0], elems = [t]\<rparr> None)
   = cross_entropy cr \<lparr>shape = [Suc 0, 2], elems = [a, b]\<rparr> \<lparr>shape = [Suc 0], elems = [t]\<rparr>"
  by (simp add: forward_def criterion_inputs_no_mask)

lemma butlast_shift:
  "rest \<noteq> [] \<Longrightarrow> butlast (c # rest) = rest \<Longrightarrow> last rest = c"
proof (induction rest arbitrary: c)
  case Nil
  then show ?case by simp
next
  case (Cons r rs)
  then show ?case by (cases rs) auto
qed

lemma cross_entropy_weight_mismatch:
  assumes rank: "2 \<le> length (shape x)" and t: "shape t = butlast (shape x)"
    and w: "length w \<noteq> last (shape x)" and cr: "weight cr = Some w"
  shows "\<exists>e. cross_entropy cr x t = Inl (KernelError e)"
proof -
  from rank obtain n c rest where sh: "shape x = n # c # rest"
    by (cases "shape x"; cases "tl (shape x)") auto
  show ?thesis
  proof (cases "shape t = n # rest")
    case False
    then show ?thesis by (simp add: cross_entropy_def sh)
  next
    case True
    have "last (c # rest) = c"
    proof (cases "rest = []")
      case True
      then show ?thesis by simp
    next
      case False
      moreover from True t sh have "butlast (c # rest) = rest" by simp
      ultimately have "last rest = c" by (rule butlast_shift)
      with False show ?thesis by simp
    qed
    with w sh have "length w \<noteq> c" by simp
    then show ?thesis by (simp add: cross_entropy_def sh True cr weight_ok_def)
  qed
qed

section \<open>Claims\<close>

text \<open>
  C1 as stated fails: the loss of logits against their own arg-max is not zero in
  general. For the single row \<open>[0, 0]\<close> with an all-false mask \<open>forward\<close> returns \<open>ln 2\<close>.
\<close>

theorem C1_counterexample:
  "fst (forward \<lparr>criterion = \<lparr>weight = None, reduction = ReduceMean\<rparr>, logits_dim = 2\<rparr>
          \<lparr>shape = [1, 2], elems = [0, 0]\<rparr> \<lparr>shape = [1], elems = [0]\<rparr>
          (Some (MBool \<lparr>shape = [1], elems = [False]\<rparr>)))
     = Inr (Loss \<lparr>shape = [], elems = [ln 2]\<rparr>)
   \<and> ln 2 \<noteq> (0::real)"
  by (simp add: forward_def criterion_inputs_mask argmax_last_def row_at_def cross_entropy_def
        weight_ok_def target_ok_def position_loss_def class_weight_def ignore_index_def
        scores_at_def nll_def numeral_2_eq_2)

text \<open>
  C1 (amended). For non-empty logits of rank two, labels and a mask shaped as the logits
  without the class axis, a mask that is all false and a weight, if any, with one entry
  per class, \<open>forward\<close> returns a loss, and it is the criterion's value on the original
  logits and their own arg-max along the class axis. Nothing is said about that value
  being zero.
\<close>

theorem C1_all_false_mask_returns_loss_against_own_argmax:
  assumes two: "length (shape logits) = 2"
    and nonempty: "0 < prod_list (shape logits)"
    and lab: "shape labels = butlast (shape logits)"
    and msk: "shape (coerce_mask m) = shape labels"
    and allf: "list_all (\<lambda>b. \<not> b) (elems (coerce_mask m))"
    and w: "weight_ok (weight (criterion self)) (last (shape logits))"
  shows "\<exists>p l. argmax_last logits = Inr p
           \<and> cross_entropy (criterion self) logits p = Inr l
           \<and> fst (forward self logits labels (Some m)) = Inr l"
proof -
  let ?c = "last (shape logits)"
  let ?p = "\<lparr>shape = butlast (shape logits),
             elems = map (\<lambda>i. int (argmax_list (row_at ?c (elems logits) i)))
                       [0..<prod_list (butlast (shape logits))]\<rparr>"
  from two have rank: "2 \<le> length (shape logits)" by simp
  from two have ne: "shape logits \<noteq> []" by (cases "shape logits") simp_all
  have cls: "0 < ?c" using ne nonempty by (rule last_pos_of_prod_pos)
  have am: "argmax_last logits = Inr ?p" by (rule argmax_last_value[OF ne cls])
  have ci: "criterion_inputs logits labels (Some m) = Inr (logits, ?p)"
    using msk allf by (intro fallback_inputs[OF rank lab cls]) simp
  from two obtain n c where sh: "shape logits = [n, c]"
    by (cases "shape logits"; cases "tl (shape logits)") auto
  have "\<exists>l. cross_entropy (criterion self) logits ?p = Inr l"
    using w cls by (intro cross_entropy_accepts[where n = n and c = c])
      (simp_all add: sh argmax_targets_ok)
  then obtain l where ce: "cross_entropy (criterion self) logits ?p = Inr l" ..
  have fw: "fst (forward self logits labels (Some m)) = Inr l"
    by (simp add: forward_def ci ce)
  from am ce fw show ?thesis by blast
qed

theorem C1_witness:
  "\<exists>p l. argmax_last \<lparr>shape = [2, 3], elems = [2, 0, 0, 0, 2, 0]\<rparr> = Inr p
     \<and> cross_entropy \<lparr>weight = None, reduction = ReduceMean\<rparr>
           \<lparr>shape = [2, 3], elems = [2, 0, 0, 0, 2, 0]\<rparr> p = Inr l
     \<and> fst (forward \<lparr>criterion = \<lparr>weight = None, reduction = ReduceMean\<rparr>, logits_dim = 2\<rparr>
              \<lparr>shape = [2, 3], elems = [2, 0, 0, 0, 2, 0]\<rparr> \<lparr>shape = [2], elems = [0, 1]\<rparr>
              (Some (MBool \<lparr>shape = [2], elems = [False, False]\<rparr>)))
       = Inr l"
  using C1_all_false_mask_returns_loss_against_own_argmax
    [of "\<lparr>shape = [2, 3], elems = [2, 0, 0, 0, 2, 0]\<rparr>" "\<lparr>shape = [2], elems = [0, 1]\<rparr>"
        "MBool \<lparr>shape = [2], elems = [False, False]\<rparr>"
        "\<lparr>criterion = \<lparr>weight = None, reduction = ReduceMean\<rparr>, logits_dim = 2\<rparr>"]
  by (simp add: weight_ok_def)

text \<open>
  C2 as stated fails twice. With no mask and empty labels the logits are empty as well,
  and the fallback calls the criterion on them: the criterion is invoked on empty
  tensors. With rank-3 logits and an all-false mask the fallback hands the criterion the
  unflattened logits, whose dimension 1 it reads as the class axis, and the call raises.
\<close>

theorem C2_counterexample:
  "criterion_inputs \<lparr>shape = [0, 2], elems = []\<rparr> \<lparr>shape = [0], elems = []\<rparr> None
     = Inr (\<lparr>shape = [0, 2], elems = []\<rparr>, \<lparr>shape = [0], elems = []\<rparr>)
   \<and> fst (forward \<lparr>criterion = \<lparr>weight = None, reduction = ReduceMean\<rparr>, logits_dim = 3\<rparr>
          \<lparr>shape = [1, 2, 3], elems = [1, 2, 3, 4, 5, 6]\<rparr> \<lparr>shape = [1, 2], elems = [0, 1]\<rparr>
          (Some (MBool \<lparr>shape = [1, 2], elems = [False, False]\<rparr>)))
     = Inl (KernelError TargetShape)"
  by (simp add: forward_def criterion_inputs_no_mask criterion_inputs_mask argmax_last_def
        cross_entropy_def)

text \<open>
  C2 (amended). For logits of rank at least two with at least one class, labels (and mask,
  if any) shaped as the logits without the class axis, and an empty selection (an
  all-false mask, or no mask and no labels), \<open>forward\<close> takes the fallback: the criterion
  is called on the original logits and their arg-max, not on the filtered tensors. When
  the logits have rank 2 and the weight, if any, has one entry per class, \<open>forward\<close>
  returns a loss and raises no error.
\<close>

theorem C2_empty_selection_takes_fallback:
  assumes rank: "2 \<le> length (shape logits)"
    and lab: "shape labels = butlast (shape logits)"
    and cls: "0 < last (shape logits)"
    and emp: "case loss_mask of
                None \<Rightarrow> prod_list (shape labels) = 0
              | Some m \<Rightarrow> shape (coerce_mask m) = shape labels
                          \<and> list_all (\<lambda>b. \<not> b) (elems (coerce_mask m))"
  shows "\<exists>p. argmax_last logits = Inr p
           \<and> criterion_inputs logits labels loss_mask = Inr (logits, p)
           \<and> (length (shape logits) = 2 \<and> weight_ok (weight (criterion self)) (last (shape logits))
                \<longrightarrow> (\<exists>l. fst (forward self logits labels loss_mask) = Inr l))"
proof -
  let ?p = "\<lparr>shape = butlast (shape logits),
             elems = map (\<lambda>i. int (argmax_list (row_at (last (shape logits)) (elems logits) i)))
                       [0..<prod_list (butlast (shape logits))]\<rparr>"
  from rank have ne: "shape logits \<noteq> []" by (cases "shape logits") simp_all
  have am: "argmax_last logits = Inr ?p" by (rule argmax_last_value[OF ne cls])
  have ci: "criterion_inputs logits labels loss_mask = Inr (logits, ?p)"
    by (rule fallback_inputs[OF rank lab cls emp])
  have ret: "\<exists>l. fst (forward self logits labels loss_mask) = Inr l"
    if two: "length (shape logits) = 2"
      and w: "weight_ok (weight (criterion self)) (last (shape logits))"
  proof -
    from two obtain n c where sh: "shape logits = [n, c]"
      by (cases "shape logits"; cases "tl (shape logits)") auto
    have "\<exists>l. cross_entropy (criterion self) logits ?p = Inr l"
      using w cls by (intro cross_entropy_accepts[where n = n and c = c])
        (simp_all add: sh argmax_targets_ok)
    then show ?thesis by (simp add: forward_def ci)
  qed
  show ?thesis using am ci ret by blast
qed

theorem C2_witness:
  "\<exists>p. argmax_last \<lparr>shape = [2, 2], elems = [1, 2, 4, 3]\<rparr> = Inr p
     \<and> criterion_inputs \<lparr>shape = [2, 2], elems = [1, 2, 4, 3]\<rparr> \<lparr>shape = [2], elems = [0, 1]\<rparr>
          (Some (MBool \<lparr>shape = [2], elems = [False, False]\<rparr>))
        = Inr (\<lparr>shape = [2, 2], elems = [1, 2, 4, 3]\<rparr>, p)
     \<and> (\<exists>l. fst (forward \<lparr>criterion = \<lparr>weight = None, reduction = ReduceMean\<rparr>, logits_dim = 2\<rparr>
                 \<lparr>shape = [2, 2], elems = [1, 2, 4, 3]\<rparr> \<lparr>shape = [2], elems = [0, 1]\<rparr>
                 (Some (MBool \<lparr>shape = [2], elems = [False, False]\<rparr>))) = Inr l)"
  using C2_empty_selection_takes_fallback
    [of "\<lparr>shape = [2, 2], elems = [1, 2, 4, 3]\<rparr>" "\<lparr>shape = [2], elems = [0, 1]\<rparr>"
        "Some (MBool \<lparr>shape = [2], elems = [False, False]\<rparr>)"
        "\<lparr>criterion = \<lparr>weight = None, reduction = ReduceMean\<rparr>, logits_dim = 2\<rparr>"]
  by (simp add: weight_ok_def)

text \<open>
  C3. For logits of rank at least two, labels shaped as the logits without the class axis
  and a boolean mask of the labels' shape with at least one true entry, \<open>forward\<close> with the
  mask returns what \<open>forward\<close> without a mask returns on the logits rows and label entries
  the mask selects, in their original order.
\<close>

theorem C3_masked_forward_is_forward_on_selection:
  assumes rank: "2 \<le> length (shape logits)"
    and lab: "shape labels = butlast (shape logits)"
    and msk: "shape m = shape labels"
    and wfl: "wf_tensor labels"
    and wfm: "wf_tensor m"
    and some: "True \<in> set (elems m)"
  shows "fst (forward self logits labels (Some (MBool m)))
       = fst (forward self (select_rows logits (elems m)) (select_entries labels (elems m)) None)"
proof -
  let ?n = "prod_list (butlast (shape logits))"
  let ?ms = "elems m"
  have lm: "length ?ms = ?n" using wfm msk lab by (simp add: wf_tensor_def)
  have ll: "length (elems labels) = ?n" using wfl lab by (simp add: wf_tensor_def)
  have ne: "filter id ?ms \<noteq> []" using some by (rule filter_id_nonempty)
  have rows: "map fst (filter snd (zip (map (row_at (last (shape logits)) (elems logits)) [0..<?n]) ?ms))
            = map (row_at (last (shape logits)) (elems logits)) (filter (\<lambda>i. ?ms ! i) [0..<?n])"
    using lm by (rule zip_filter_upt)
  have ents: "concat (map fst (filter snd (zip (map (row_at 1 (elems labels)) [0..<?n]) ?ms)))
            = map (\<lambda>i. elems labels ! i) (filter (\<lambda>i. ?ms ! i) [0..<?n])"
  proof -
    have "\<forall>i \<in> set (filter (\<lambda>i. ?ms ! i) [0..<?n]). i < length (elems labels)"
      using ll by simp
    then show ?thesis
      by (simp only: zip_filter_upt[OF lm] concat_rows_one)
  qed
  have L: "criterion_inputs logits labels (Some (MBool m))
         = Inr (select_rows logits ?ms, select_entries labels ?ms)"
    using ne rows ents lm
    by (simp add: criterion_inputs_mask[OF rank] lab msk select_rows_def select_entries_def)
  have R: "criterion_inputs (select_rows logits ?ms) (select_entries labels ?ms) None
         = Inr (select_rows logits ?ms, select_entries labels ?ms)"
    using ne by (simp add: criterion_inputs_no_mask select_rows_def select_entries_def)
  show ?thesis by (simp add: forward_def L R)
qed

theorem C3_witness:
  "fst (forward \<lparr>criterion = \<lparr>weight = None, reduction = ReduceMean\<rparr>, logits_dim = 2\<rparr>
          \<lparr>shape = [3, 3], elems = [2, 0, 0, 0, 2, 0, 0, 0, 2]\<rparr>
          \<lparr>shape = [3], elems = [0, 1, 2]\<rparr>
          (Some (MBool \<lparr>shape = [3], elems = [True, True, False]\<rparr>)))
   = fst (forward \<lparr>criterion = \<lparr>weight = None, reduction = ReduceMean\<rparr>, logits_dim = 2\<rparr>
          \<lparr>shape = [2, 3], elems = [2, 0, 0, 0, 2, 0]\<rparr>
          \<lparr>shape = [2], elems = [0, 1]\<rparr> None)"
  using C3_masked_forward_is_forward_on_selection
    [of "\<lparr>shape = [3, 3], elems = [2, 0, 0, 0, 2, 0, 0, 0, 2]\<rparr>"
        "\<lparr>shape = [3], elems = [0, 1, 2]\<rparr>"
        "\<lparr>shape = [3], elems = [True, True, False]\<rparr>"
        "\<lparr>criterion = \<lparr>weight = None, reduction = ReduceMean\<rparr>, logits_dim = 2\<rparr>"]
  by (simp add: select_rows_def select_entries_def wf_tensor_def row_at_def numeral_2_eq_2)

text \<open>
  With at least one label and no mask, \<open>forward\<close> on logits of shape \<open>[B, T, C]\<close> and
  labels of shape \<open>[B, T]\<close> hands the criterion the flattened tensors (line 87), and
  returns what it returns on the same buffers shaped \<open>[B * T, C]\<close> and \<open>[B * T]\<close>.
\<close>

lemma rank3_forward_is_forward_on_flattened:
  assumes "shape logits = [B, T, C]"
    and "shape labels = [B, T]"
    and "0 < B * T"
  shows "fst (forward self logits labels None)
       = fst (forward self \<lparr>shape = [B * T, C], elems = elems logits\<rparr>
                \<lparr>shape = [B * T], elems = elems labels\<rparr> None)"
  using assms by (simp add: forward_def criterion_inputs_no_mask)

lemma rank3_forward_is_forward_on_flattened_example:
  "fst (forward \<lparr>criterion = \<lparr>weight = None, reduction = ReduceMean\<rparr>, logits_dim = 3\<rparr>
          \<lparr>shape = [1, 2, 2], elems = [1, 2, 3, 4]\<rparr>
          \<lparr>shape = [1, 2], elems = [0, 1]\<rparr> None)
   = fst (forward \<lparr>criterion = \<lparr>weight = None, reduction = ReduceMean\<rparr>, logits_dim = 3\<rparr>
          \<lparr>shape = [2, 2], elems = [1, 2, 3, 4]\<rparr>
          \<lparr>shape = [2], elems = [0, 1]\<rparr> None)"
  using rank3_forward_is_forward_on_flattened
    [of "\<lparr>shape = [1, 2, 2], elems = [1, 2, 3, 4]\<rparr>" 1 2 2
        "\<lparr>shape = [1, 2], elems = [0, 1]\<rparr>"
        "\<lparr>criterion = \<lparr>weight = None, reduction = ReduceMean\<rparr>, logits_dim = 3\<rparr>"]
  by simp

text \<open>
  C4. On an empty batch the code does not do what the claim says. With no labels the
  fallback (line 85) hands the criterion the unflattened rank-3 logits, where the other
  return (line 87) hands it the flattened ones; the criterion reads dimension 1 of the
  unflattened logits as the class axis and rejects the target's shape, while the call
  on the pre-flattened tensors returns the non-finite mean of an empty batch.
\<close>

theorem C4_empty_batch_fallback_raises:
  "fst (forward \<lparr>criterion = \<lparr>weight = None, reduction = ReduceMean\<rparr>, logits_dim = 3\<rparr>
          \<lparr>shape = [0, 2, 3], elems = []\<rparr> \<lparr>shape = [0, 2], elems = []\<rparr> None)
     = Inl (KernelError TargetShape)
   \<and> fst (forward \<lparr>criterion = \<lparr>weight = None, reduction = ReduceMean\<rparr>, logits_dim = 3\<rparr>
          \<lparr>shape = [0 * 2, 3], elems = []\<rparr> \<lparr>shape = [0 * 2], elems = []\<rparr> None)
     = Inr NonFinite"
  by (simp add: forward_def criterion_inputs_no_mask argmax_last_def cross_entropy_def
        weight_ok_def)

text \<open>
  C5. With a numeric mask (floating point or integer) \<open>forward\<close> returns what it returns
  with the boolean mask that is true exactly where the numeric entry is greater than one
  half; a boolean-typed mask is used as it is.
\<close>

theorem C5_numeric_mask_is_thresholded:
  "fst (forward self logits labels (Some (MFloat f)))
     = fst (forward self logits labels
         (Some (MBool \<lparr>shape = shape f, elems = map (\<lambda>v. 0.5 < v) (elems f)\<rparr>)))
   \<and> fst (forward self logits labels (Some (MInt i)))
     = fst (forward self logits labels
         (Some (MBool \<lparr>shape = shape i, elems = map (\<lambda>v. 0.5 < real_of_int v) (elems i)\<rparr>)))
   \<and> coerce_mask (MBool b) = b"
proof -
  have f: "criterion_inputs logits labels (Some (MFloat f))
         = criterion_inputs logits labels
             (Some (MBool \<lparr>shape = shape f, elems = map (\<lambda>v. 0.5 < v) (elems f)\<rparr>))"
    by (rule criterion_inputs_coerce) simp
  have i: "criterion_inputs logits labels (Some (MInt i))
         = criterion_inputs logits labels
             (Some (MBool \<lparr>shape = shape i, elems = map (\<lambda>v. 0.5 < real_of_int v) (elems i)\<rparr>))"
    by (rule criterion_inputs_coerce) simp
  show ?thesis by (simp only: forward_def f i fst_conv coerce_mask.simps simp_thms)
qed

text \<open>
  C6 as stated fails under the default reduction \<open>mean\<close>, which divides by the total
  weight of the targets: for a single example the class weight cancels, and the weighted
  loss of the class-1 example equals the unweighted loss of the class-0 example.
\<close>

theorem C6_counterexample:
  "fst (forward \<lparr>criterion = \<lparr>weight = Some [1, 2], reduction = ReduceMean\<rparr>, logits_dim = 2\<rparr>
          \<lparr>shape = [1, 2], elems = [1, 0]\<rparr> \<lparr>shape = [1], elems = [1]\<rparr> None)
     = Inr (Loss \<lparr>shape = [], elems = [ln (exp 1 + 1)]\<rparr>)
   \<and> fst (forward \<lparr>criterion = \<lparr>weight = None, reduction = ReduceMean\<rparr>, logits_dim = 2\<rparr>
          \<lparr>shape = [1, 2], elems = [0, 1]\<rparr> \<lparr>shape = [1], elems = [0]\<rparr> None)
     = Inr (Loss \<lparr>shape = [], elems = [ln (exp 1 + 1)]\<rparr>)
   \<and> ln (exp 1 + 1) \<noteq> 2 * ln (exp 1 + (1::real))"
proof -
  have "(1::real) < exp 1 + 1" using exp_gt_zero[of "1::real"] by linarith
  then have "0 < ln (exp 1 + (1::real))" by (intro ln_gt_zero)
  then show ?thesis
    by (simp add: forward_one_example cross_entropy_one_example weight_ok_def
          class_weight_def ignore_index_def add.commute)
qed

text \<open>
  C6 (amended). For a module constructed with weight \<open>[1, 2]\<close> and reduction \<open>sum\<close> or
  \<open>none\<close>, the loss of a single example with scores \<open>[a, b]\<close> and true class 1 is twice
  the loss that the module without weights gives the mirrored example with scores
  \<open>[b, a]\<close> and true class 0 (for \<open>a > b\<close> both examples are misclassified).
\<close>

theorem C6_class_weight_doubles_loss_under_sum_and_none:
  "init 2 (Some [1, 2]) red = Inr \<lparr>criterion = \<lparr>weight = Some [1, 2], reduction = red\<rparr>, logits_dim = 2\<rparr>
   \<and> init 2 None red = Inr \<lparr>criterion = \<lparr>weight = None, reduction = red\<rparr>, logits_dim = 2\<rparr>
   \<and> fst (forward \<lparr>criterion = \<lparr>weight = None, reduction = ReduceSum\<rparr>, logits_dim = 2\<rparr>
          \<lparr>shape = [1, 2], elems = [b, a]\<rparr> \<lparr>shape = [1], elems = [0]\<rparr> None)
     = Inr (Loss \<lparr>shape = [], elems = [ln (exp a + exp b) - b]\<rparr>)
   \<and> fst (forward \<lparr>criterion = \<lparr>weight = Some [1, 2], reduction = ReduceSum\<rparr>, logits_dim = 2\<rparr>
          \<lparr>shape = [1, 2], elems = [a, b]\<rparr> \<lparr>shape = [1], elems = [1]\<rparr> None)
     = Inr (Loss \<lparr>shape = [], elems = [2 * (ln (exp a + exp b) - b)]\<rparr>)
   \<and> fst (forward \<lparr>criterion = \<lparr>weight = None, reduction = ReduceNone\<rparr>, logits_dim = 2\<rparr>
          \<lparr>shape = [1, 2], elems = [b, a]\<rparr> \<lparr>shape = [1], elems = [0]\<rparr> None)
     = Inr (Loss \<lparr>shape = [1], elems = [ln (exp a + exp b) - b]\<rparr>)
   \<and> fst (forward \<lparr>criterion = \<lparr>weight = Some [1, 2], reduction = ReduceNone\<rparr>, logits_dim = 2\<rparr>
          \<lparr>shape = [1, 2], elems = [a, b]\<rparr> \<lparr>shape = [1], elems = [1]\<rparr> None)
     = Inr (Loss \<lparr>shape = [1], elems = [2 * (ln (exp a + exp b) - b)]\<rparr>)"
  by (simp add: init_def forward_one_example cross_entropy_one_example weight_ok_def
        class_weight_def ignore_index_def add.commute)

text \<open>
  C7 as stated fails for the empty weight list: it is falsy, so it reaches the criterion's
  constructor unconverted, and construction raises a type error.
\<close>

theorem C7_counterexample:
  "length ([] :: real list) \<noteq> 2 \<and> init 2 (Some []) ReduceMean = Inl BufferTypeError"
  by (simp add: init_def)

text \<open>
  C7 (amended). Construction with a non-empty weight list succeeds whatever its length.
  When that length differs from the number of classes, every \<open>forward\<close> call whose
  logits have rank at least two and at least one class, with labels (and mask, if any)
  shaped as the logits without the class axis, fails with an error of the criterion.
\<close>

theorem C7_nonempty_weight_is_checked_by_the_criterion_only:
  assumes ne: "w \<noteq> []"
    and rank: "2 \<le> length (shape logits)"
    and lab: "shape labels = butlast (shape logits)"
    and msk: "case loss_mask of None \<Rightarrow> True | Some m \<Rightarrow> shape (coerce_mask m) = shape labels"
    and cls: "0 < last (shape logits)"
    and mis: "length w \<noteq> last (shape logits)"
  shows "\<exists>self. init logits_ndim (Some w) red = Inr self
           \<and> (\<exists>e. fst (forward self logits labels loss_mask) = Inl (KernelError e))"
proof -
  let ?self = "\<lparr>criterion = \<lparr>weight = Some w, reduction = red\<rparr>, logits_dim = logits_ndim\<rparr>"
  have i: "init logits_ndim (Some w) red = Inr ?self" using ne by (simp add: init_def)
  obtain x t where ci: "criterion_inputs logits labels loss_mask = Inr (x, t)"
    and x: "2 \<le> length (shape x)" and tx: "shape t = butlast (shape x)"
    and lx: "last (shape x) = last (shape logits)"
  proof (cases "case loss_mask of None \<Rightarrow> prod_list (shape labels) = 0
                | Some m \<Rightarrow> list_all (\<lambda>b. \<not> b) (elems (coerce_mask m))")
    case True
    then have emp: "case loss_mask of
                None \<Rightarrow> prod_list (shape labels) = 0
              | Some m \<Rightarrow> shape (coerce_mask m) = shape labels
                          \<and> list_all (\<lambda>b. \<not> b) (elems (coerce_mask m))"
      using msk by (cases loss_mask) simp_all
    show ?thesis
      by (rule that[OF fallback_inputs[OF rank lab cls emp]]) (simp_all add: rank)
  next
    case False
    show ?thesis
    proof (cases loss_mask)
      case None
      with False show ?thesis
        by (intro that[of "\<lparr>shape = [prod_list (butlast (shape logits)), last (shape logits)],
                  elems = elems logits\<rparr>"
                "\<lparr>shape = [prod_list (shape labels)], elems = elems labels\<rparr>"])
           (simp_all add: criterion_inputs_no_mask[OF rank] lab)
    next
      case (Some m)
      with False have f: "filter id (elems (coerce_mask m)) \<noteq> []"
        by (auto simp: filter_empty_conv list_all_iff)
      from Some msk have s: "shape (coerce_mask m) = shape labels" by simp
      show ?thesis unfolding Some
        by (rule that[unfolded Some, OF criterion_inputs_mask[OF rank, of m labels, unfolded s lab, simplified, unfolded if_not_P[OF f]]])
           simp_all
    qed
  qed
  from mis lx have "length w \<noteq> last (shape x)" by simp
  then have "\<exists>e. cross_entropy (criterion ?self) x t = Inl (KernelError e)"
    by (intro cross_entropy_weight_mismatch[OF x tx]) simp_all
  then have "\<exists>e. fst (forward ?self logits labels loss_mask) = Inl (KernelError e)"
    by (simp add: forward_def ci)
  with i show ?thesis by blast
qed

theorem C7_witness:
  "\<exists>self. init 2 (Some [1, 2, 3]) ReduceMean = Inr self
     \<and> (\<exists>e. fst (forward self \<lparr>shape = [1, 2], elems = [1, 0]\<rparr> \<lparr>shape = [1], elems = [0]\<rparr> None)
            = Inl (KernelError e))"
  using C7_nonempty_weight_is_checked_by_the_criterion_only
    [of "[1, 2, 3]" "\<lparr>shape = [1, 2], elems = [1, 0]\<rparr>" "\<lparr>shape = [1], elems = [0]\<rparr>" None 2 ReduceMean]
  by simp

text \<open>
  C8. \<open>forward\<close> leaves the module's state (the criterion with its weight and reduction,
  and the stored rank) as it was, so the result of a later call does not depend on the
  calls before it.
\<close>

theorem C8_forward_keeps_state:
  "snd (forward self logits labels loss_mask) = self
   \<and> fst (forward (snd (forward self logits labels loss_mask)) logits' labels' loss_mask')
     = fst (forward self logits' labels' loss_mask')"
  by (simp add: forward_def)

text \<open>
  C9. With the same logits and the same all-false mask, two labels tensors of the same
  shape give the same result: on the fallback path the labels' contents are not read.
\<close>

theorem C9_fallback_ignores_labels:
  assumes "shape labels' = shape labels"
    and "list_all (\<lambda>b. \<not> b) (elems (coerce_mask m))"
  shows "fst (forward self logits labels (Some m)) = fst (forward self logits labels' (Some m))"
proof -
  have "criterion_inputs logits labels (Some m) = criterion_inputs logits labels' (Some m)"
    using assms
    by (simp add: criterion_inputs_def flatten_all index_mask_def filter_zip_all_false
          filter_id_all_false len_def split: sum.splits list.splits)
  then show ?thesis by (simp add: forward_def)
qed

theorem C9_witness:
  "fst (forward \<lparr>criterion = \<lparr>weight = None, reduction = ReduceMean\<rparr>, logits_dim = 2\<rparr>
          \<lparr>shape = [2, 2], elems = [1, 2, 3, 4]\<rparr> \<lparr>shape = [2], elems = [0, 0]\<rparr>
          (Some (MBool \<lparr>shape = [2], elems = [False, False]\<rparr>)))
   = fst (forward \<lparr>criterion = \<lparr>weight = None, reduction = ReduceMean\<rparr>, logits_dim = 2\<rparr>
          \<lparr>shape = [2, 2], elems = [1, 2, 3, 4]\<rparr> \<lparr>shape = [2], elems = [1, 0]\<rparr>
          (Some (MBool \<lparr>shape = [2], elems = [False, False]\<rparr>)))"
  using C9_fallback_ignores_labels
    [of "\<lparr>shape = [2], elems = [1, 0]\<rparr>" "\<lparr>shape = [2], elems = [0, 0]\<rparr>"
        "MBool \<lparr>shape = [2], elems = [False, False]\<rparr>"
        "\<lparr>criterion = \<lparr>weight = None, reduction = ReduceMean\<rparr>, logits_dim = 2\<rparr>"
        "\<lparr>shape = [2, 2], elems = [1, 2, 3, 4]\<rparr>"]
  by simp

text \<open>
  C10. With reduction \<open>none\<close>, logits of rank at least two, labels and mask shaped as the
  logits without the class axis, targets and weight the criterion accepts, and a mask
  with \<open>k > 0\<close> true entries, \<open>forward\<close> returns a tensor of shape \<open>[k]\<close> with \<open>k\<close>
  elements.
\<close>

theorem C10_reduction_none_gives_one_loss_per_selected_position:
  assumes red: "reduction (criterion self) = ReduceNone"
    and rank: "2 \<le> length (shape logits)"
    and lab: "shape labels = butlast (shape logits)"
    and msk: "shape (coerce_mask m) = shape labels"
    and k: "0 < length (filter id (elems (coerce_mask m)))"
    and w: "weight_ok (weight (criterion self)) (last (shape logits))"
    and t: "list_all (target_ok (last (shape logits))) (elems labels)"
  shows "\<exists>r. fst (forward self logits labels (Some m)) = Inr (Loss r)
            \<and> shape r = [length (filter id (elems (coerce_mask m)))]
            \<and> length (elems r) = length (filter id (elems (coerce_mask m)))"
proof -
  let ?sel = "concat (map fst (filter snd
                 (zip (map (row_at 1 (elems labels)) [0..<prod_list (shape labels)])
                      (elems (coerce_mask m)))))"
  have ok: "list_all (target_ok (last (shape logits))) ?sel"
  proof -
    have "set ?sel \<subseteq> set (elems labels)" by (rule set_selected_entries)
    with t show ?thesis unfolding list_all_iff by blast
  qed
  have ne: "filter id (elems (coerce_mask m)) \<noteq> []" using k by auto
  show ?thesis
    using ne ok w red
    by (simp add: forward_def criterion_inputs_mask[OF rank] lab msk cross_entropy_def Let_def)
qed

theorem C10_witness:
  "\<exists>r. fst (forward \<lparr>criterion = \<lparr>weight = None, reduction = ReduceNone\<rparr>, logits_dim = 2\<rparr>
          \<lparr>shape = [3, 2], elems = [1, 2, 3, 4, 5, 6]\<rparr> \<lparr>shape = [3], elems = [0, 1, 1]\<rparr>
          (Some (MFloat \<lparr>shape = [3], elems = [0.9, 0.4, 0.6]\<rparr>))) = Inr (Loss r)
       \<and> shape r = [2] \<and> length (elems r) = 2"
  using C10_reduction_none_gives_one_loss_per_selected_position
    [of "\<lparr>criterion = \<lparr>weight = None, reduction = ReduceNone\<rparr>, logits_dim = 2\<rparr>"
        "\<lparr>shape = [3, 2], elems = [1, 2, 3, 4, 5, 6]\<rparr>" "\<lparr>shape = [3], elems = [0, 1, 1]\<rparr>"
        "MFloat \<lparr>shape = [3], elems = [0.9, 0.4, 0.6]\<rparr>"]
  by (simp add: weight_ok_def target_ok_def numeral_2_eq_2)

end
